theory Spec2Isabelle
  imports Main "HOL-Library.Sublist"
begin

section \<open>Strings as the client handles them\<close>

text \<open>
  The sources are \<^verbatim>\<open>src/src/client/cli/cmd/launch.cpp\<close> (the launch command of the
  client), \<^verbatim>\<open>src/include/multipass/url_downloader.h\<close>,
  \<^verbatim>\<open>src/src/platform/backends/libvirt/libvirt_virtual_machine.h\<close> and the tests under
  \<^verbatim>\<open>src/tests\<close>.

  Strings are byte strings (\<open>char list\<close>). \<open>QString::split(sep, QString::SkipEmptyParts)\<close>
  cuts the string at every separator and drops the empty pieces; \<open>split_parts\<close> is the
  cut that keeps them, \<open>split_skip\<close> drops them.
\<close>

fun split_parts :: "char \<Rightarrow> string \<Rightarrow> string list" where
  "split_parts sep [] = [[]]"
| "split_parts sep (c # cs) =
     (if c = sep then [] # split_parts sep cs
      else (case split_parts sep cs of
              [] \<Rightarrow> [[c]]
            | p # ps \<Rightarrow> (c # p) # ps))"

definition split_skip :: "char \<Rightarrow> string \<Rightarrow> string list" where
  "split_skip sep s = filter (\<lambda>p. p \<noteq> []) (split_parts sep s)"

text \<open>
  \<open>QString::toLower\<close> on the letters that matter to the parser: the keys \<open>name\<close>,
  \<open>mode\<close>, \<open>mac\<close> and the modes \<open>auto\<close>, \<open>manual\<close> are ASCII, and no character
  outside ASCII lower-cases to one of their letters, so the ASCII letters A to Z are
  mapped to a to z and every other byte is left as it is.
\<close>

definition toLower_char :: "char \<Rightarrow> char" where
  "toLower_char c =
     (let n = (of_char c :: nat) in if 65 \<le> n \<and> n \<le> 90 then char_of (n + 32) else c)"

definition toLower :: "string \<Rightarrow> string" where
  "toLower s = map toLower_char s"

section \<open>The network option parser (\<open>net_digest\<close>)\<close>

text \<open>
  \<open>LaunchRequest_NetworkOptions\<close> is a protobuf message: a freshly constructed one has
  an empty id, the first mode of the enumeration (\<open>auto\<close>, as the help text of the
  \<open>--network\<close> option says: "mode: auto|manual (default: auto)") and an empty MAC
  address. The field \<open>id\<close> is named \<open>id_net\<close> here.
\<close>

datatype Mode = AUTO | MANUAL

record NetworkOptions =
  id_net :: string
  mode :: Mode
  mac_address :: string

definition default_NetworkOptions :: NetworkOptions where
  "default_NetworkOptions = \<lparr>id_net = [], mode = AUTO, mac_address = []\<rparr>"

datatype error = ValidationException string

definition checked_mode :: "string \<Rightarrow> error + Mode" where
  "checked_mode m =
     (if m = ''auto'' then Inr AUTO
      else if m = ''manual'' then Inr MANUAL
      else Inl (ValidationException
             (''Bad network mode '' @ [CHR 0x27] @ m @ [CHR 0x27] @ '', need 'auto' or 'manual'' @ [CHR 0x27])))"

text \<open>
  \<open>mpu::valid_mac_address\<close> is declared in \<open>multipass/utils.h\<close>, which is not among the
  sources: the parser takes it as the parameter \<open>valid_mac\<close>.
\<close>

definition checked_mac :: "(string \<Rightarrow> bool) \<Rightarrow> string \<Rightarrow> error + string" where
  "checked_mac valid_mac mac =
     (if \<not> valid_mac mac then Inl (ValidationException (''Invalid MAC address: '' @ mac))
      else Inr mac)"

text \<open>
  The body of the \<open>for\<close> loop of \<open>net_digest\<close>, for one \<open>key_value_pair\<close>;
  \<open>n\<close> is \<open>split.size()\<close>.
\<close>

definition digest_pair ::
  "(string \<Rightarrow> bool) \<Rightarrow> nat \<Rightarrow> NetworkOptions \<Rightarrow> string \<Rightarrow> error + NetworkOptions" where
  "digest_pair valid_mac n net key_value_pair =
     (let key_value_split = split_skip CHR ''='' key_value_pair in
      if length key_value_split = 2 then
        (let key = toLower (key_value_split ! 0); val = key_value_split ! 1 in
         if key = ''name'' then Inr (net\<lparr>id_net := val\<rparr>)
         else if key = ''mode'' then
           (case checked_mode (toLower val) of
              Inl e \<Rightarrow> Inl e
            | Inr m \<Rightarrow> Inr (net\<lparr>mode := m\<rparr>))
         else if key = ''mac'' then
           (case checked_mac valid_mac val of
              Inl e \<Rightarrow> Inl e
            | Inr a \<Rightarrow> Inr (net\<lparr>mac_address := a\<rparr>))
         else Inl (ValidationException (''Bad network field: '' @ key)))
      else if length key_value_split = 1 \<and> n = 1 then
        Inr (net\<lparr>id_net := key_value_split ! 0\<rparr>)
      else Inl (ValidationException (''Bad network field definition: '' @ key_value_pair)))"

fun digest_loop ::
  "(string \<Rightarrow> bool) \<Rightarrow> nat \<Rightarrow> NetworkOptions \<Rightarrow> string list \<Rightarrow> error + NetworkOptions" where
  "digest_loop valid_mac n net [] = Inr net"
| "digest_loop valid_mac n net (p # ps) =
     (case digest_pair valid_mac n net p of
        Inl e \<Rightarrow> Inl e
      | Inr net' \<Rightarrow> digest_loop valid_mac n net' ps)"

definition net_digest :: "(string \<Rightarrow> bool) \<Rightarrow> string \<Rightarrow> error + NetworkOptions" where
  "net_digest valid_mac options =
     (let split = split_skip CHR '','' options in
      case digest_loop valid_mac (length split) default_NetworkOptions split of
        Inl e \<Rightarrow> Inl e
      | Inr net \<Rightarrow>
          if id_net net = [] then
            Inl (ValidationException ''Bad network definition, need at least a 'name' field'')
          else Inr net)"

section \<open>The launch command: success, failure and progress callbacks\<close>

text \<open>
  \<open>cmd::Launch::request_launch\<close> hands three callbacks to \<open>dispatch\<close>. Each is
  modelled as a function on the state of the command object (the record \<open>Launch\<close>
  below): the request under construction, the terminal, the timer, the spinner and
  what has been written to \<open>cout\<close> and \<open>cerr\<close>.

  \<open>opt_in_reply\<close> is a message field of the request: it is absent (\<open>None\<close>) until
  \<open>mutable_opt_in_reply()->set_opt_in_status\<close> stores a status. The source names the
  statuses \<open>ACCEPTED\<close>, \<open>DENIED\<close> and \<open>LATER\<close>.
\<close>

datatype OptInStatus = ACCEPTED | DENIED | LATER

record LaunchRequest =
  instance_name :: string
  mem_size :: string
  disk_space :: string
  network_options :: "NetworkOptions list"
  opt_in_reply :: "OptInStatus option"

text \<open>
  The kinds of progress, \<open>LaunchProgress_ProgressTypes_IMAGE\<close> and so on. The
  enumeration is declared in the protocol file, which is not among the sources;
  \<open>streaming_callback\<close> names six of its values and keys its table by \<open>int\<close>, so a
  value it does not name can reach it: \<open>OTHER_PROGRESS_TYPE\<close> stands for every such
  value.
\<close>

datatype ProgressTypes =
    IMAGE
  | KERNEL
  | INITRD
  | EXTRACT
  | VERIFY
  | WAITING
  | OTHER_PROGRESS_TYPE

datatype CreateOneof =
    kLaunchProgress ProgressTypes string
  | kCreateMessage string
  | CREATE_ONEOF_NOT_SET

text \<open>
  The fields of \<open>LaunchReply\<close> the callbacks read. \<open>has_host_info\<close> stands for
  \<open>reply.metrics_show_info().has_host_info()\<close>; \<open>update_available\<close> and
  \<open>update_notice\<close> stand for the results of the helpers of \<open>common_cli.h\<close> on
  \<open>reply.update_info()\<close>. The two arguments of \<open>kLaunchProgress\<close> are
  \<open>launch_progress().type()\<close> and \<open>launch_progress().percent_complete()\<close>.
\<close>

record LaunchReply =
  metrics_pending :: bool
  has_host_info :: bool
  vm_instance_name :: string
  update_available :: bool
  update_notice :: string
  log_line :: string
  create_oneof :: CreateOneof
  reply_message :: string

datatype timer_state = TimerRunning | TimerPaused

text \<open>
  What is written to \<open>cout\<close>: plain text, or the opening question of the usage-data
  handshake (its text has characters outside ASCII; the flag says whether the
  \<open>show\<close> choice is offered).
\<close>

datatype cout_item = Text string | OptInQuestion bool

text \<open>
  \<open>timer\<close> is \<open>None\<close> when no timer was made (the pointer is null); \<open>spinner\<close> is
  \<open>None\<close> when the spinner is stopped and \<open>Some m\<close> when it runs with the message
  \<open>m\<close>; \<open>term_cin\<close> holds the lines still to be read from the terminal.
\<close>

record Launch =
  request :: LaunchRequest
  term_is_live :: bool
  term_cin :: "string list"
  timer :: "timer_state option"
  spinner :: "string option"
  cout :: "cout_item list"
  cerr :: "string list"

text \<open>
  The four regular expressions, matched against the whole answer without regard to
  case: \<open>y|yes\<close>, \<open>n|no\<close>, \<open>l|later\<close>, \<open>s|show\<close>.
\<close>

definition regex_match_yes :: "string \<Rightarrow> bool" where
  "regex_match_yes answer = (toLower answer = ''y'' \<or> toLower answer = ''yes'')"

definition regex_match_no :: "string \<Rightarrow> bool" where
  "regex_match_no answer = (toLower answer = ''n'' \<or> toLower answer = ''no'')"

definition regex_match_later :: "string \<Rightarrow> bool" where
  "regex_match_later answer = (toLower answer = ''l'' \<or> toLower answer = ''later'')"

definition regex_match_show :: "string \<Rightarrow> bool" where
  "regex_match_show answer = (toLower answer = ''s'' \<or> toLower answer = ''show'')"

text \<open>
  The \<open>while (true)\<close> loop of the handshake. Each round reads one line with
  \<open>std::getline\<close>; at the end of the input the line read is empty, which the loop
  takes as \<open>later\<close>. The result is the status stored in the request, what was
  written to \<open>cout\<close> and the lines left unread.
\<close>

fun opt_in_loop :: "bool \<Rightarrow> string list \<Rightarrow> OptInStatus \<times> cout_item list \<times> string list" where
  "opt_in_loop host_info [] = (LATER, [], [])"
| "opt_in_loop host_info (answer # rest) =
     (if regex_match_yes answer then (ACCEPTED, [Text (''Thank you!'' @ [CHR 0x0A])], rest)
      else if regex_match_no answer then (DENIED, [], rest)
      else if answer = [] \<or> regex_match_later answer then (LATER, [], rest)
      else if host_info \<and> regex_match_show answer then
        (case opt_in_loop host_info rest of
           (status, out, rest') \<Rightarrow>
             (status,
              Text (''Show metrics example here'' @ [CHR 0x0A, CHR 0x0A] @
                    ''Send usage data (yes/no/Later/show)? '') # out,
              rest'))
      else
        (case opt_in_loop host_info rest of
           (status, out, rest') \<Rightarrow>
             (status,
              Text (if host_info then ''Please answer yes/no/Later/show: ''
                    else ''Please answer yes/no/Later: '') # out,
              rest')))"

text \<open>
  \<open>ReturnCode\<close> is declared in a header that is not among the sources: \<open>Ok\<close> is the
  code the callbacks name, \<open>CommandFail\<close> stands for any other.
\<close>

datatype ReturnCode = Ok | CommandFail

text \<open>
  \<open>on_success\<close> either returns a code or ends in \<open>return request_launch(parser)\<close>,
  which sends the request of the command again: \<open>RequestLaunch\<close>.
\<close>

datatype next_step = Return ReturnCode | RequestLaunch

definition timer_pause :: "timer_state option \<Rightarrow> timer_state option" where
  "timer_pause t = (case t of None \<Rightarrow> None | Some _ \<Rightarrow> Some TimerPaused)"

definition timer_resume :: "timer_state option \<Rightarrow> timer_state option" where
  "timer_resume t = (case t of None \<Rightarrow> None | Some _ \<Rightarrow> Some TimerRunning)"

definition opt_in_handshake :: "LaunchReply \<Rightarrow> Launch \<Rightarrow> Launch" where
  "opt_in_handshake reply c =
     (let c1 = c\<lparr>timer := timer_pause (timer c)\<rparr>;
          c2 = c1\<lparr>cout := cout c1 @ [OptInQuestion (has_host_info reply)]\<rparr>
      in case opt_in_loop (has_host_info reply) (term_cin c2) of
           (status, out, rest) \<Rightarrow>
             c2\<lparr>request := (request c2)\<lparr>opt_in_reply := Some status\<rparr>,
                cout := cout c2 @ out,
                term_cin := rest\<rparr>)"

definition on_success :: "LaunchReply \<Rightarrow> Launch \<Rightarrow> next_step \<times> Launch" where
  "on_success reply c0 =
     (let c = c0\<lparr>spinner := None\<rparr> in
      if metrics_pending reply then
        (let c1 = (if term_is_live c then opt_in_handshake reply c else c)
         in (RequestLaunch, c1\<lparr>timer := timer_resume (timer c1)\<rparr>))
      else
        (let c1 = c\<lparr>cout := cout c @
                      [Text (''Launched: '' @ vm_instance_name reply @ [CHR 0x0A])]\<rparr>;
             c2 = (if term_is_live c1 \<and> update_available reply
                   then c1\<lparr>cout := cout c1 @ [Text (update_notice reply)]\<rparr>
                   else c1)
         in (Return Ok, c2)))"

text \<open>
  The error codes of \<open>LaunchError\<close> that \<open>on_failure\<close> names; the enumeration is
  declared in the protocol file, which is not among the sources, so every code the
  chain of comparisons does not name is \<open>OTHER_ERROR_CODE\<close>.
\<close>

datatype ErrorCodes =
    INVALID_DISK_SIZE
  | INVALID_MEM_SIZE
  | INVALID_HOSTNAME
  | INVALID_NETWORK
  | OTHER_ERROR_CODE

text \<open>The \<open>for\<close> loop of \<open>on_failure\<close>: every code it knows overwrites \<open>error_details\<close>.\<close>

fun error_details_loop :: "LaunchRequest \<Rightarrow> string \<Rightarrow> ErrorCodes list \<Rightarrow> string" where
  "error_details_loop req error_details [] = error_details"
| "error_details_loop req error_details (error # rest) =
     error_details_loop req
       (if error = INVALID_DISK_SIZE then
          ''Invalid disk size value supplied: '' @ disk_space req @ ''.''
        else if error = INVALID_MEM_SIZE then
          ''Invalid memory size value supplied: '' @ mem_size req @ ''.''
        else if error = INVALID_HOSTNAME then
          ''Invalid instance name supplied: '' @ instance_name req
        else if error = INVALID_NETWORK then
          ''Invalid network options supplied''
        else error_details)
       rest"

text \<open>
  \<open>grpc::Status\<close> as \<open>on_failure\<close> reads it: the message and the codes that
  \<open>launch_error.ParseFromString(status.error_details())\<close> yields.
\<close>

record Status =
  error_message :: string
  error_codes :: "ErrorCodes list"

text \<open>
  \<open>standard_failure_handler_for\<close> is declared in \<open>common_cli.h\<close>, which is not among
  the sources: \<open>on_failure\<close> takes it as the parameter \<open>handler\<close>, called with the
  name of the command, the status and the details; it yields what goes to \<open>cerr\<close> and
  the return code.
\<close>

definition on_failure ::
  "(string \<Rightarrow> Status \<Rightarrow> string \<Rightarrow> string list \<times> ReturnCode) \<Rightarrow> Status \<Rightarrow> Launch
     \<Rightarrow> ReturnCode \<times> Launch" where
  "on_failure handler status c0 =
     (let c = c0\<lparr>spinner := None\<rparr>;
          error_details = error_details_loop (request c) [] (error_codes status)
      in case handler ''launch'' status error_details of
           (written, code) \<Rightarrow> (code, c\<lparr>cerr := cerr c @ written\<rparr>))"

text \<open>
  \<open>progress_messages\<close> is the table of \<open>streaming_callback\<close>; \<open>map_subscript\<close> is
  \<open>operator[]\<close> of \<open>std::unordered_map\<close>, which yields the empty string for a key
  the table does not hold.
\<close>

definition progress_messages :: "(ProgressTypes \<times> string) list" where
  "progress_messages =
     [(IMAGE, ''Retrieving image: ''),
      (KERNEL, ''Retrieving kernel image: ''),
      (INITRD, ''Retrieving initrd image: ''),
      (EXTRACT, ''Extracting image: ''),
      (VERIFY, ''Verifying image: ''),
      (WAITING, ''Preparing image: '')]"

definition map_subscript :: "('k \<times> string) list \<Rightarrow> 'k \<Rightarrow> string" where
  "map_subscript m k = (case map_of m k of None \<Rightarrow> [] | Some v \<Rightarrow> v)"

definition streaming_callback :: "LaunchReply \<Rightarrow> Launch \<Rightarrow> Launch" where
  "streaming_callback reply c0 =
     (let c = (if log_line reply \<noteq> [] then c0\<lparr>cerr := cerr c0 @ [log_line reply]\<rparr> else c0)
      in case create_oneof reply of
           kLaunchProgress progress_type percent_complete \<Rightarrow>
             (let progress_message = map_subscript progress_messages progress_type in
              if percent_complete \<noteq> ''-1'' then
                c\<lparr>spinner := None,
                  cout := cout c @ [Text [CHR 0x0D],
                                    Text (progress_message @ percent_complete @ ''%'')]\<rparr>
              else c\<lparr>spinner := Some progress_message\<rparr>)
         | kCreateMessage create_message \<Rightarrow> c\<lparr>spinner := Some create_message\<rparr>
         | CREATE_ONEOF_NOT_SET \<Rightarrow>
             (if reply_message reply \<noteq> [] then c\<lparr>spinner := Some (reply_message reply)\<rparr>
              else c))"

section \<open>Backend selection\<close>

text \<open>
  What a run of \<open>platform::vm_backend\<close> can read: the configured driver (what the
  settings return for \<open>driver_key\<close>) and the driver environment variable
  (\<open>driver_env_var\<close>; \<open>None\<close> when it is not set), as
  \<open>src/tests/linux/test_platform_linux.cpp\<close> sets them up before each call.
\<close>

record Platform =
  driver_setting :: string
  driver_env :: "string option"

text \<open>The factories the tests expect, each with the directory it was made for.\<close>

datatype VirtualMachineFactory =
    QemuVirtualMachineFactory string
  | LibVirtVirtualMachineFactory string
  | LXDVirtualMachineFactory string

datatype backend_failure = UnsupportedBackend string

text \<open>
  Modelled from the spec: \<open>platform::is_backend_supported\<close>, whose code (the Linux
  platform layer) is not among the sources; only the tests that call it are. The
  selector is "one of a fixed set of supported hypervisor backends" (4.2); the tests
  name the set: \<open>qemu\<close>, \<open>libvirt\<close> and \<open>lxd\<close> produce a factory, \<open>hyperkit\<close>,
  \<open>hyper-v\<close> and \<open>other\<close> are not supported.
\<close>

definition is_backend_supported :: "string \<Rightarrow> bool" where
  "is_backend_supported backend =
     (backend = ''qemu'' \<or> backend = ''libvirt'' \<or> backend = ''lxd'')"

text \<open>
  Modelled from the spec: \<open>platform::vm_backend\<close>, whose code is not among the
  sources. "Given a backend selector and a cache/working directory, produce a
  VirtualMachine builder bound to that backend. Construction fails with an
  unsupported-backend condition if the selector does not match any compiled-in
  backend" (4.2); "the Factory is a simple switch over the backend identifier" (9).
  The selector is the configured driver.
\<close>

definition vm_backend :: "Platform \<Rightarrow> string \<Rightarrow> backend_failure + VirtualMachineFactory" where
  "vm_backend platform data_dir =
     (let driver = driver_setting platform in
      if driver = ''qemu'' then Inr (QemuVirtualMachineFactory data_dir)
      else if driver = ''libvirt'' then Inr (LibVirtVirtualMachineFactory data_dir)
      else if driver = ''lxd'' then Inr (LXDVirtualMachineFactory data_dir)
      else Inl (UnsupportedBackend driver))"

text \<open>The backend a factory is bound to, and its directory.\<close>

fun backend_of :: "VirtualMachineFactory \<Rightarrow> string" where
  "backend_of (QemuVirtualMachineFactory d) = ''qemu''"
| "backend_of (LibVirtVirtualMachineFactory d) = ''libvirt''"
| "backend_of (LXDVirtualMachineFactory d) = ''lxd''"

fun data_dir_of :: "VirtualMachineFactory \<Rightarrow> string" where
  "data_dir_of (QemuVirtualMachineFactory d) = d"
| "data_dir_of (LibVirtVirtualMachineFactory d) = d"
| "data_dir_of (LXDVirtualMachineFactory d) = d"

section \<open>The virtual machine state machine\<close>

text \<open>
  Modelled from the spec: \<open>VirtualMachine::State\<close>, declared in
  \<open>multipass/virtual_machine.h\<close>, which is not among the sources (the header
  \<open>libvirt_virtual_machine.h\<close> only uses it). The states are those of 4.1.
\<close>

datatype State =
    off
  | starting
  | running
  | stopping
  | stopped
  | suspending
  | suspended
  | restarting
  | delayed_shutdown
  | unknown

text \<open>
  Modelled from the spec: the fields of a \<open>VirtualMachine\<close> (3: "identity = instance
  name; mutable fields = current lifecycle state, cached network addresses,
  suspend-status flag"), of which the name, the state and the flag are kept, and
  what a machine asks of its backend (the side effects of an operation), which the
  missing \<open>libvirt_virtual_machine.cpp\<close> would send through the libvirt wrapper.
\<close>

datatype backend_request = GracefulShutdown | PowerOff

record VirtualMachine =
  vm_name :: string
  vm_state :: State
  suspend_status :: bool
  backend_requests :: "backend_request list"

datatype vm_failure = BackendFailure

text \<open>
  Modelled from the spec: \<open>VirtualMachine::stop\<close>, whose code
  (\<open>libvirt_virtual_machine.cpp\<close>) is not among the sources; the header only declares
  it and the mock of the tests gives it no body. "\<open>stop(force)\<close>: requests graceful
  shutdown; if \<open>force\<close> is false, allows the guest time to shut down cleanly before
  the backend forcibly powers off; on success reaches \<open>stopped\<close>" and "\<open>stop()\<close> on an
  already-stopped machine is a no-op success" (4.1). \<open>backend_ok\<close> says whether the
  backend carries a request out.
\<close>

definition stop ::
  "(backend_request \<Rightarrow> bool) \<Rightarrow> bool \<Rightarrow> VirtualMachine \<Rightarrow> vm_failure + VirtualMachine" where
  "stop backend_ok force vm =
     (if vm_state vm = stopped then Inr vm
      else
        (let requests = (if force then [PowerOff] else [GracefulShutdown, PowerOff]);
             vm1 = vm\<lparr>backend_requests := backend_requests vm @ requests\<rparr>
         in if list_all backend_ok requests then Inr (vm1\<lparr>vm_state := stopped\<rparr>)
            else Inl BackendFailure))"

section \<open>Cancelling downloads\<close>

text \<open>
  Modelled from the spec: a download of \<open>URLDownloader::download_to\<close>, whose code
  (\<open>url_downloader.cpp\<close>) is not among the sources. A download in flight has
  written some bytes and has at least one more chunk to read; a finished one holds
  its output; a cancelled one has released its partial output (4.4).
\<close>

datatype download =
    InFlight string string "string list"
  | Completed string
  | Cancelled

text \<open>
  \<open>URLDownloader\<close> declares one flag per instance,
  \<open>std::atomic_bool abort_download{false}\<close>; \<open>downloads\<close> are the downloads that
  were started on the instance, which all read that flag.
\<close>

record URLDownloader =
  abort_download :: bool
  downloads :: "download list"

text \<open>
  Modelled from the spec: \<open>URLDownloader::abort_all_downloads\<close>, which the header
  declares and whose code (\<open>url_downloader.cpp\<close>) is not among the sources: it "sets
  a shared cancellation flag observed by every in-flight download on this instance"
  (4.4).
\<close>

definition abort_all_downloads :: "URLDownloader \<Rightarrow> URLDownloader" where
  "abort_all_downloads d = d\<lparr>abort_download := True\<rparr>"

text \<open>
  Modelled from the spec: one round of the loop of \<open>URLDownloader::download_to\<close>,
  whose code is not among the sources: "each download loop checks the flag between
  chunks and aborts with a cancellation condition, releasing partial output" (4.4).
  A round first reads the flag and then takes the next chunk; the download is
  complete once the last chunk is taken.
\<close>

fun download_round :: "bool \<Rightarrow> download \<Rightarrow> download" where
  "download_round flag (InFlight written chunk chunks) =
     (if flag then Cancelled
      else (case chunks of
              [] \<Rightarrow> Completed (written @ chunk)
            | next_chunk # later \<Rightarrow> InFlight (written @ chunk) next_chunk later))"
| "download_round flag (Completed written) = Completed written"
| "download_round flag Cancelled = Cancelled"

text \<open>
  Modelled from the spec: the start of \<open>URLDownloader::download_to\<close> (its code is not
  among the sources) on a payload that arrives in the given chunks.
\<close>

definition download_to :: "string list \<Rightarrow> download" where
  "download_to payload =
     (case payload of [] \<Rightarrow> Completed [] | chunk # chunks \<Rightarrow> InFlight [] chunk chunks)"

text \<open>
  Modelled from the spec: the concurrent use of one downloader (5: the downloader
  "is shared across concurrently running pipelines"; the flag is "a single
  process-wide atomic boolean per downloader instance"). The threads are not among
  the sources; their interleaving is a sequence of events, each atomic: a call of
  \<open>abort_all_downloads\<close>, the start of a download, or one round of the download
  with the given index.
\<close>

datatype downloader_event = AbortAll | Start "string list" | Round nat

fun downloader_step :: "URLDownloader \<Rightarrow> downloader_event \<Rightarrow> URLDownloader" where
  "downloader_step d AbortAll = abort_all_downloads d"
| "downloader_step d (Start payload) = d\<lparr>downloads := downloads d @ [download_to payload]\<rparr>"
| "downloader_step d (Round i) =
     (if i < length (downloads d)
      then d\<lparr>downloads := (downloads d)[i := download_round (abort_download d) (downloads d ! i)]\<rparr>
      else d)"

definition downloader_run :: "URLDownloader \<Rightarrow> downloader_event list \<Rightarrow> URLDownloader" where
  "downloader_run d events = foldl downloader_step d events"

section \<open>Notions used to state the properties\<close>

text \<open>
  A comma-separated piece of an option string is a \<^emph>\<open>name pair\<close> when it splits at
  \<open>=\<close> into a key and a value and the key, lower-cased, is \<open>name\<close>; \<open>name_value\<close>
  is its value.
\<close>

definition is_name_pair :: "string \<Rightarrow> bool" where
  "is_name_pair p =
     (case split_skip CHR ''='' p of [k, v] \<Rightarrow> toLower k = ''name'' | _ \<Rightarrow> False)"

definition name_value :: "string \<Rightarrow> string" where
  "name_value p = split_skip CHR ''='' p ! 1"

text \<open>
  A piece is a \<^emph>\<open>well-formed pair\<close> when it splits into a key and a value, the key is
  one of \<open>name\<close>, \<open>mode\<close>, \<open>mac\<close>, a mode is \<open>auto\<close> or \<open>manual\<close> and a MAC address
  is valid.
\<close>

definition well_formed_pair :: "(string \<Rightarrow> bool) \<Rightarrow> string \<Rightarrow> bool" where
  "well_formed_pair valid_mac p =
     (case split_skip CHR ''='' p of
        [k, v] \<Rightarrow>
          toLower k = ''name''
          \<or> (toLower k = ''mode'' \<and> (toLower v = ''auto'' \<or> toLower v = ''manual''))
          \<or> (toLower k = ''mac'' \<and> valid_mac v)
      | _ \<Rightarrow> False)"

text \<open>
  The handshake in the words of its prompt, to compare \<open>opt_in_loop\<close> with: what an
  answer means (\<open>yes\<close>, \<open>no\<close> and \<open>later\<close> in full or by their first letter, in
  any case of the letters; the empty answer means \<open>later\<close>; anything else means
  nothing and is asked again), the status the handshake ends with when the answers
  from the first meaningful one on are given (\<open>later\<close> when there is none), and what
  is written after an answer that means nothing.
\<close>

definition answer_meaning :: "string \<Rightarrow> OptInStatus option" where
  "answer_meaning answer =
     (if toLower answer = ''y'' \<or> toLower answer = ''yes'' then Some ACCEPTED
      else if toLower answer = ''n'' \<or> toLower answer = ''no'' then Some DENIED
      else if answer = [] \<or> toLower answer = ''l'' \<or> toLower answer = ''later'' then Some LATER
      else None)"

definition final_status :: "string list \<Rightarrow> OptInStatus" where
  "final_status answers =
     (case answers of
        [] \<Rightarrow> LATER
      | answer # _ \<Rightarrow> (case answer_meaning answer of None \<Rightarrow> LATER | Some status \<Rightarrow> status))"

definition reprompt :: "bool \<Rightarrow> string \<Rightarrow> cout_item" where
  "reprompt host_info answer =
     (if host_info \<and> (toLower answer = ''s'' \<or> toLower answer = ''show'') then
        Text (''Show metrics example here'' @ [CHR 0x0A, CHR 0x0A] @
              ''Send usage data (yes/no/Later/show)? '')
      else if host_info then Text ''Please answer yes/no/Later/show: ''
      else Text ''Please answer yes/no/Later: '')"

text \<open>Concrete inputs for the instances below.\<close>

definition example_request :: LaunchRequest where
  "example_request =
     \<lparr>instance_name = ''test1'', mem_size = ''1G'', disk_space = ''5G'',
      network_options = [\<lparr>id_net = ''mynet'', mode = AUTO, mac_address = []\<rparr>],
      opt_in_reply = None\<rparr>"

definition example_launch :: "bool \<Rightarrow> string list \<Rightarrow> Launch" where
  "example_launch live lines =
     \<lparr>request = example_request, term_is_live = live, term_cin = lines,
      timer = Some TimerRunning, spinner = Some ''Launching'', cout = [], cerr = []\<rparr>"

definition example_reply :: LaunchReply where
  "example_reply =
     \<lparr>metrics_pending = True, has_host_info = False, vm_instance_name = ''test1'',
      update_available = False, update_notice = [], log_line = [],
      create_oneof = CREATE_ONEOF_NOT_SET, reply_message = []\<rparr>"

definition example_progress :: "ProgressTypes \<Rightarrow> string \<Rightarrow> LaunchReply" where
  "example_progress t percent =
     \<lparr>metrics_pending = False, has_host_info = False, vm_instance_name = [],
      update_available = False, update_notice = [], log_line = [],
      create_oneof = kLaunchProgress t percent, reply_message = []\<rparr>"

definition example_handler :: "string \<Rightarrow> Status \<Rightarrow> string \<Rightarrow> string list \<times> ReturnCode" where
  "example_handler command status details =
     ([command @ '' failed: '' @ error_message status, details], CommandFail)"

definition example_downloader :: URLDownloader where
  "example_downloader =
     \<lparr>abort_download = False,
      downloads = [InFlight ''ab'' ''cd'' [], InFlight [] ''x'' [''y'']]\<rparr>"

section \<open>Splitting\<close>

lemma split_parts_no_sep: "sep \<notin> set s \<Longrightarrow> split_parts sep s = [s]"
  by (induction s) auto

lemma split_parts_trailing_sep: "sep \<notin> set s \<Longrightarrow> split_parts sep (s @ [sep]) = [s, []]"
  by (induction s) auto

lemma split_skip_nonempty: "x \<in> set (split_skip sep s) \<Longrightarrow> x \<noteq> []"
  by (simp add: split_skip_def)

section \<open>Properties of the network option parser\<close>

text \<open>
  C4. For every network option string that is a single bare token (not empty, no
  \<open>=\<close> and no \<open>,\<close>), parsing yields an option whose id is that token, with mode
  \<open>auto\<close> and no MAC address.
\<close>

theorem net_digest_bare_token:
  assumes "options \<noteq> []" and "CHR '','' \<notin> set options" and "CHR ''='' \<notin> set options"
  shows "net_digest valid_mac options = Inr \<lparr>id_net = options, mode = AUTO, mac_address = []\<rparr>"
  using assms
  by (simp add: net_digest_def split_skip_def split_parts_no_sep digest_pair_def
      default_NetworkOptions_def)

theorem net_digest_bare_token_witness:
  "net_digest (\<lambda>mac. False) ''mynet'' = Inr \<lparr>id_net = ''mynet'', mode = AUTO, mac_address = []\<rparr>"
proof -
  have "''mynet'' \<noteq> []" and "CHR '','' \<notin> set ''mynet''" and "CHR ''='' \<notin> set ''mynet''"
    by simp_all
  then show ?thesis by (rule net_digest_bare_token)
qed

text \<open>The empty string is no token: it has no piece at all and is rejected.\<close>

lemma net_digest_empty:
  "net_digest valid_mac [] =
     Inl (ValidationException ''Bad network definition, need at least a 'name' field'')"
  by (simp add: net_digest_def split_skip_def default_NetworkOptions_def)

subsection \<open>Well-formed pairs are applied in order\<close>

lemma well_formed_pair_split:
  assumes "well_formed_pair valid_mac p"
  obtains k v where "split_skip CHR ''='' p = [k, v]"
  using assms unfolding well_formed_pair_def
  by (auto split: list.splits)

lemma digest_pair_well_formed:
  assumes "well_formed_pair valid_mac p"
  shows "\<exists>net'. digest_pair valid_mac n net p = Inr net'
           \<and> id_net net' = (if is_name_pair p then name_value p else id_net net)"
proof -
  from assms obtain k v where kv: "split_skip CHR ''='' p = [k, v]"
    by (rule well_formed_pair_split)
  with assms show ?thesis
    by (auto simp: well_formed_pair_def digest_pair_def is_name_pair_def name_value_def
        checked_mode_def checked_mac_def)
qed

lemma digest_loop_append:
  "digest_loop valid_mac n net (xs @ ys) =
     (case digest_loop valid_mac n net xs of
        Inl e \<Rightarrow> Inl e
      | Inr net' \<Rightarrow> digest_loop valid_mac n net' ys)"
  by (induction xs arbitrary: net) (auto split: sum.splits)

lemma digest_loop_well_formed:
  assumes "list_all (well_formed_pair valid_mac) ps"
  shows "\<exists>net'. digest_loop valid_mac n net ps = Inr net'
           \<and> (list_ex is_name_pair ps \<or> id_net net' = id_net net)"
  using assms
proof (induction ps arbitrary: net)
  case Nil
  then show ?case by simp
next
  case (Cons p ps)
  from Cons.prems have wf: "well_formed_pair valid_mac p"
    and rest: "list_all (well_formed_pair valid_mac) ps" by simp_all
  from digest_pair_well_formed [OF wf, of n net] obtain net1 where
    step: "digest_pair valid_mac n net p = Inr net1"
    and id1: "id_net net1 = (if is_name_pair p then name_value p else id_net net)"
    by blast
  from Cons.IH [OF rest, of net1] obtain net2 where
    loop: "digest_loop valid_mac n net1 ps = Inr net2"
    and id2: "list_ex is_name_pair ps \<or> id_net net2 = id_net net1"
    by blast
  from step loop id1 id2 show ?case by auto
qed

text \<open>
  The claim C2 says that an option string with the key \<open>name\<close> more than once is
  rejected. The parser has no check for a repeated key: \<open>name=a,name=b\<close> holds two
  name pairs and is accepted, with the id \<open>b\<close>.
\<close>

theorem net_digest_repeated_name_counterexample:
  "length (filter is_name_pair (split_skip CHR '','' ''name=a,name=b'')) = 2
   \<and> net_digest (\<lambda>mac. False) ''name=a,name=b'' =
       Inr \<lparr>id_net = ''b'', mode = AUTO, mac_address = []\<rparr>"
  by code_simp

text \<open>
  C2, as the parser has it. A repeated key is not rejected: when every
  comma-separated piece of the option string is a well-formed pair, the option is
  accepted, however many name pairs it holds, and its id is the value of the last
  name pair.
\<close>

theorem net_digest_repeated_name_last_wins:
  assumes wf: "list_all (well_formed_pair valid_mac) (split_skip CHR '','' options)"
    and parts: "split_skip CHR '','' options = before @ p # after"
    and name: "is_name_pair p"
    and last: "\<not> list_ex is_name_pair after"
  shows "\<exists>net. net_digest valid_mac options = Inr net \<and> id_net net = name_value p"
proof -
  let ?n = "length (split_skip CHR '','' options)"
  from wf parts have wf_before: "list_all (well_formed_pair valid_mac) before"
    and wf_p: "well_formed_pair valid_mac p"
    and wf_after: "list_all (well_formed_pair valid_mac) after"
    by simp_all
  from digest_loop_well_formed [OF wf_before] obtain net1 where
    l1: "digest_loop valid_mac ?n default_NetworkOptions before = Inr net1"
    by blast
  from digest_pair_well_formed [OF wf_p, of ?n net1] name obtain net2 where
    l2: "digest_pair valid_mac ?n net1 p = Inr net2" and id2: "id_net net2 = name_value p"
    by auto
  from digest_loop_well_formed [OF wf_after, of ?n net2] last obtain net3 where
    l3: "digest_loop valid_mac ?n net2 after = Inr net3" and id3: "id_net net3 = id_net net2"
    by blast
  from l1 l2 l3 have loop:
    "digest_loop valid_mac ?n default_NetworkOptions (split_skip CHR '','' options) = Inr net3"
    by (simp add: parts digest_loop_append)
  from wf_p obtain k v where kv: "split_skip CHR ''='' p = [k, v]"
    by (rule well_formed_pair_split)
  then have "name_value p \<in> set (split_skip CHR ''='' p)"
    by (simp add: name_value_def)
  then have "name_value p \<noteq> []" by (rule split_skip_nonempty)
  with loop id2 id3 show ?thesis
    by (simp add: net_digest_def)
qed

theorem net_digest_repeated_name_last_wins_witness:
  "\<exists>net. net_digest (\<lambda>mac. False) ''name=a,name=b'' = Inr net \<and> id_net net = ''b''"
proof -
  have h1: "list_all (well_formed_pair (\<lambda>mac. False)) (split_skip CHR '','' ''name=a,name=b'')"
    by code_simp
  have h2: "split_skip CHR '','' ''name=a,name=b'' = [''name=a''] @ ''name=b'' # []"
    by code_simp
  have h3: "is_name_pair ''name=b''" by code_simp
  have h4: "\<not> list_ex is_name_pair []" by simp
  have v: "name_value ''name=b'' = ''b''" by code_simp
  from net_digest_repeated_name_last_wins [OF h1 h2 h3 h4] v show ?thesis by simp
qed

subsection \<open>Rejected option strings\<close>

lemma digest_loop_pair_fails:
  assumes "p \<in> set ps"
    and "\<And>net. \<exists>msg. digest_pair valid_mac n net p = Inl (ValidationException msg)"
  shows "\<exists>msg. digest_loop valid_mac n net ps = Inl (ValidationException msg)"
  using assms(1)
proof (induction ps arbitrary: net)
  case Nil
  then show ?case by simp
next
  case (Cons q qs)
  show ?case
  proof (cases "digest_pair valid_mac n net q")
    case (Inl e)
    then show ?thesis by (cases e) simp
  next
    case (Inr net1)
    with assms(2) [of net] have "p \<noteq> q" by auto
    with Cons.prems have "p \<in> set qs" by simp
    from Cons.IH [OF this, of net1] Inr show ?thesis by simp
  qed
qed

lemma net_digest_pair_fails:
  assumes "p \<in> set (split_skip CHR '','' options)"
    and "\<And>net. \<exists>msg. digest_pair valid_mac (length (split_skip CHR '','' options)) net p
                    = Inl (ValidationException msg)"
  shows "\<exists>msg. net_digest valid_mac options = Inl (ValidationException msg)"
proof -
  from digest_loop_pair_fails [OF assms(1), of valid_mac
      "length (split_skip CHR '','' options)" default_NetworkOptions] assms(2)
  obtain msg where "digest_loop valid_mac (length (split_skip CHR '','' options))
      default_NetworkOptions (split_skip CHR '','' options) = Inl (ValidationException msg)"
    by blast
  then show ?thesis by (simp add: net_digest_def)
qed

text \<open>
  A piece with an unrecognized key, a mode other than \<open>auto\<close> and \<open>manual\<close>, an
  invalid MAC address, or a number of parts other than two (unless it is the only
  piece and has one part) makes the parser fail, whatever the other pieces are.
\<close>

lemma net_digest_rejects_bad_pair:
  assumes "p \<in> set (split_skip CHR '','' options)"
    and "(\<exists>k v. split_skip CHR ''='' p = [k, v]
            \<and> toLower k \<noteq> ''name'' \<and> toLower k \<noteq> ''mode'' \<and> toLower k \<noteq> ''mac'')
       \<or> (\<exists>k v. split_skip CHR ''='' p = [k, v]
            \<and> toLower k = ''mode'' \<and> toLower v \<noteq> ''auto'' \<and> toLower v \<noteq> ''manual'')
       \<or> (\<exists>k v. split_skip CHR ''='' p = [k, v] \<and> toLower k = ''mac'' \<and> \<not> valid_mac v)
       \<or> (length (split_skip CHR ''='' p) \<noteq> 2
            \<and> (length (split_skip CHR ''='' p) \<noteq> 1 \<or> length (split_skip CHR '','' options) \<noteq> 1))"
  shows "\<exists>msg. net_digest valid_mac options = Inl (ValidationException msg)"
proof (rule net_digest_pair_fails [OF assms(1)])
  fix net
  from assms(2)
  show "\<exists>msg. digest_pair valid_mac (length (split_skip CHR '','' options)) net p
          = Inl (ValidationException msg)"
    by (auto simp: digest_pair_def checked_mode_def checked_mac_def)
qed

lemma digest_pair_keeps_id:
  assumes "digest_pair valid_mac n net p = Inr net1" and "\<not> is_name_pair p"
    and "length (split_skip CHR ''='' p) = 2"
  shows "id_net net1 = id_net net"
proof -
  from assms(3) obtain k v where "split_skip CHR ''='' p = [k, v]"
    by (cases "split_skip CHR ''='' p"; cases "tl (split_skip CHR ''='' p)") auto
  with assms(1,2) show ?thesis
    by (auto simp: digest_pair_def is_name_pair_def Let_def split: if_splits sum.splits)
qed

lemma digest_loop_keeps_id:
  assumes "digest_loop valid_mac n net ps = Inr net1"
    and "\<not> list_ex is_name_pair ps"
    and "list_all (\<lambda>p. length (split_skip CHR ''='' p) = 2) ps"
  shows "id_net net1 = id_net net"
  using assms
proof (induction ps arbitrary: net)
  case Nil
  then show ?case by simp
next
  case (Cons q qs)
  from Cons.prems(1) obtain net2 where
    q: "digest_pair valid_mac n net q = Inr net2"
    and qs: "digest_loop valid_mac n net2 qs = Inr net1"
    by (auto split: sum.splits)
  from Cons.prems(2,3) q have "id_net net2 = id_net net"
    by (simp add: digest_pair_keeps_id)
  moreover from Cons.IH [OF qs] Cons.prems(2,3) have "id_net net1 = id_net net2"
    by simp
  ultimately show ?case by simp
qed

text \<open>An option string of key=value pieces none of which is a name pair is rejected.\<close>

lemma net_digest_rejects_missing_name:
  assumes "\<not> list_ex is_name_pair (split_skip CHR '','' options)"
    and "list_all (\<lambda>p. length (split_skip CHR ''='' p) = 2) (split_skip CHR '','' options)"
  shows "\<exists>msg. net_digest valid_mac options = Inl (ValidationException msg)"
proof (cases "digest_loop valid_mac (length (split_skip CHR '','' options))
                default_NetworkOptions (split_skip CHR '','' options)")
  case (Inl e)
  then show ?thesis by (cases e) (simp add: net_digest_def)
next
  case (Inr net1)
  from digest_loop_keeps_id [OF Inr assms] have "id_net net1 = []"
    by (simp add: default_NetworkOptions_def)
  with Inr show ?thesis by (simp add: net_digest_def)
qed

text \<open>
  C5 says that an option string with a malformed key=value pair, or with no
  non-empty name, fails as a whole. The option string \<open>mode=\<close> is a key with no
  value and names no network, and the parser accepts it: the split at \<open>=\<close> drops the
  empty value, the one part left is taken for a bare network name, and the result is
  an option for a network called \<open>mode\<close>. The comment in \<open>net_digest\<close> reserves that
  reading for an argument with no \<open>,\<close> and no \<open>=\<close>.
\<close>

theorem net_digest_accepts_key_without_value:
  "net_digest valid_mac ''mode='' = Inr \<lparr>id_net = ''mode'', mode = AUTO, mac_address = []\<rparr>"
  by code_simp

text \<open>The same holds for every key, recognized or not, followed by \<open>=\<close>.\<close>

lemma net_digest_lone_key:
  assumes "key \<noteq> []" and "CHR '','' \<notin> set key" and "CHR ''='' \<notin> set key"
  shows "net_digest valid_mac (key @ ''='') = Inr \<lparr>id_net = key, mode = AUTO, mac_address = []\<rparr>"
  using assms
  by (simp add: net_digest_def split_skip_def split_parts_no_sep split_parts_trailing_sep
      digest_pair_def default_NetworkOptions_def)

section \<open>Properties of the success callback\<close>

lemma timer_resume_pause: "timer_resume (timer_pause t) = timer_resume t"
  by (cases t) (simp_all add: timer_resume_def timer_pause_def)

text \<open>
  In the handshake an empty answer, and the end of the input, count as \<open>later\<close>.
\<close>

lemma opt_in_loop_default_later:
  "opt_in_loop host_info [] = (LATER, [], [])"
  "opt_in_loop host_info ([] # rest) = (LATER, [], rest)"
  by (simp_all add: regex_match_yes_def regex_match_no_def toLower_def)

text \<open>An answer that means something ends the loop with its status.\<close>

lemma opt_in_loop_recognized:
  assumes "answer_meaning answer = Some status"
  shows "opt_in_loop host_info (answer # rest) =
           (status, (if status = ACCEPTED then [Text (''Thank you!'' @ [CHR 0x0A])] else []), rest)"
  using assms
  by (auto simp: answer_meaning_def regex_match_yes_def regex_match_no_def
      regex_match_later_def split: if_splits)

text \<open>An answer that means nothing is asked again, and the loop goes on.\<close>

lemma opt_in_loop_unrecognized:
  assumes "answer_meaning answer = None"
  shows "opt_in_loop host_info (answer # rest) =
           (case opt_in_loop host_info rest of
              (status, out, rest') \<Rightarrow> (status, reprompt host_info answer # out, rest'))"
  using assms
  by (auto simp: answer_meaning_def reprompt_def regex_match_yes_def regex_match_no_def
      regex_match_later_def regex_match_show_def split: if_splits prod.splits)

text \<open>
  The loop reads the answers up to the first one that means something: it asks
  again after each one before it, ends with the status of that one (\<open>later\<close> at the
  end of the input), thanks for a \<open>yes\<close>, and leaves the answers after it unread.
\<close>

lemma opt_in_loop_reads_until_recognized:
  "opt_in_loop host_info answers =
     (final_status (dropWhile (\<lambda>a. answer_meaning a = None) answers),
      map (reprompt host_info) (takeWhile (\<lambda>a. answer_meaning a = None) answers)
        @ (if final_status (dropWhile (\<lambda>a. answer_meaning a = None) answers) = ACCEPTED
           then [Text (''Thank you!'' @ [CHR 0x0A])] else []),
      drop 1 (dropWhile (\<lambda>a. answer_meaning a = None) answers))"
proof (induction answers)
  case Nil
  then show ?case by (simp add: final_status_def)
next
  case (Cons answer rest)
  show ?case
  proof (cases "answer_meaning answer")
    case None
    with Cons show ?thesis
      by (simp add: opt_in_loop_unrecognized del: opt_in_loop.simps)
  next
    case (Some status)
    then show ?thesis
      by (simp add: opt_in_loop_recognized final_status_def del: opt_in_loop.simps)
  qed
qed

text \<open>
  The claim C1 says that in a session that is not interactive the opt-in status is
  recorded as \<open>later\<close> before the request is sent again. The callback stores a status
  only inside the branch for a live terminal: on a terminal that is not live the
  request is sent again as it was, here with no opt-in reply at all.
\<close>

theorem on_success_headless_counterexample:
  "metrics_pending example_reply
   \<and> \<not> term_is_live (example_launch False [''yes''])
   \<and> fst (on_success example_reply (example_launch False [''yes''])) = RequestLaunch
   \<and> opt_in_reply (request (snd (on_success example_reply (example_launch False [''yes''])))) = None
   \<and> opt_in_reply (request (snd (on_success example_reply (example_launch False [''yes'']))))
       \<noteq> Some LATER"
  by (simp add: on_success_def example_reply_def example_launch_def example_request_def)

text \<open>
  C1, as the callback has it. When a launch reply arrives with the metrics opt-in
  pending, the handshake runs only on a live terminal. There the question is
  written and the answers are read up to the first one that means something (\<open>yes\<close>,
  \<open>no\<close>, \<open>later\<close>, or the empty answer, which means \<open>later\<close>); every answer before
  it is asked again; the status of that answer, or \<open>later\<close> at the end of the input,
  is stored in the request; a \<open>yes\<close> is thanked for; the answers after it stay
  unread; and the request is sent again. On a terminal that is not live the
  handshake is skipped: nothing is written or read, the request is left as it was
  (no status is stored) and it is sent again. In both cases the spinner is stopped
  and a timer, if there is one, runs on.
\<close>

theorem on_success_metrics_pending:
  assumes "metrics_pending reply"
  shows "(\<not> term_is_live c \<longrightarrow>
            on_success reply c =
              (RequestLaunch, c\<lparr>spinner := None, timer := timer_resume (timer c)\<rparr>))
       \<and> (term_is_live c \<longrightarrow>
            on_success reply c =
              (let skipped = takeWhile (\<lambda>a. answer_meaning a = None) (term_cin c);
                   decided = dropWhile (\<lambda>a. answer_meaning a = None) (term_cin c);
                   status = final_status decided
               in (RequestLaunch,
                   c\<lparr>spinner := None,
                     request := (request c)\<lparr>opt_in_reply := Some status\<rparr>,
                     cout := cout c @ OptInQuestion (has_host_info reply)
                               # map (reprompt (has_host_info reply)) skipped
                               @ (if status = ACCEPTED
                                  then [Text (''Thank you!'' @ [CHR 0x0A])] else []),
                     term_cin := drop 1 decided,
                     timer := timer_resume (timer c)\<rparr>)))"
proof (intro conjI impI)
  assume "\<not> term_is_live c"
  with assms show "on_success reply c =
      (RequestLaunch, c\<lparr>spinner := None, timer := timer_resume (timer c)\<rparr>)"
    by (simp add: on_success_def)
next
  assume live: "term_is_live c"
  from assms live show "on_success reply c =
              (let skipped = takeWhile (\<lambda>a. answer_meaning a = None) (term_cin c);
                   decided = dropWhile (\<lambda>a. answer_meaning a = None) (term_cin c);
                   status = final_status decided
               in (RequestLaunch,
                   c\<lparr>spinner := None,
                     request := (request c)\<lparr>opt_in_reply := Some status\<rparr>,
                     cout := cout c @ OptInQuestion (has_host_info reply)
                               # map (reprompt (has_host_info reply)) skipped
                               @ (if status = ACCEPTED
                                  then [Text (''Thank you!'' @ [CHR 0x0A])] else []),
                     term_cin := drop 1 decided,
                     timer := timer_resume (timer c)\<rparr>))"
    by (simp add: on_success_def opt_in_handshake_def timer_resume_pause
        opt_in_loop_reads_until_recognized Let_def)
qed

text \<open>
  Five runs: a terminal that is not live; a \<open>yes\<close> after an answer that is asked
  again; a \<open>no\<close>; the end of the input after an answer that is asked again; and, when
  the reply offers it, \<open>show\<close> followed by \<open>l\<close>.
\<close>

theorem on_success_metrics_pending_witness:
  "on_success example_reply (example_launch False [''yes'']) =
     (RequestLaunch, (example_launch False [''yes''])\<lparr>spinner := None\<rparr>)
   \<and> on_success example_reply (example_launch True [''what'', ''Yes'', ''x'']) =
     (RequestLaunch,
      (example_launch True [''what'', ''Yes'', ''x''])
        \<lparr>spinner := None,
         request := example_request\<lparr>opt_in_reply := Some ACCEPTED\<rparr>,
         cout := [OptInQuestion False, Text ''Please answer yes/no/Later: '',
                  Text (''Thank you!'' @ [CHR 0x0A])],
         term_cin := [''x'']\<rparr>)
   \<and> on_success example_reply (example_launch True [''NO'', ''yes'']) =
     (RequestLaunch,
      (example_launch True [''NO'', ''yes''])
        \<lparr>spinner := None,
         request := example_request\<lparr>opt_in_reply := Some DENIED\<rparr>,
         cout := [OptInQuestion False],
         term_cin := [''yes'']\<rparr>)
   \<and> on_success example_reply (example_launch True [''show'']) =
     (RequestLaunch,
      (example_launch True [''show''])
        \<lparr>spinner := None,
         request := example_request\<lparr>opt_in_reply := Some LATER\<rparr>,
         cout := [OptInQuestion False, Text ''Please answer yes/no/Later: ''],
         term_cin := []\<rparr>)
   \<and> on_success (example_reply\<lparr>has_host_info := True\<rparr>) (example_launch True [''Show'', ''l'']) =
     (RequestLaunch,
      (example_launch True [''Show'', ''l''])
        \<lparr>spinner := None,
         request := example_request\<lparr>opt_in_reply := Some LATER\<rparr>,
         cout := [OptInQuestion True,
                  Text (''Show metrics example here'' @ [CHR 0x0A, CHR 0x0A] @
                        ''Send usage data (yes/no/Later/show)? '')],
         term_cin := []\<rparr>)"
proof -
  have p: "metrics_pending example_reply"
    and p': "metrics_pending (example_reply\<lparr>has_host_info := True\<rparr>)"
    by (simp_all add: example_reply_def)
  have h: "has_host_info example_reply = False" by (simp add: example_reply_def)
  have t: "timer_resume (Some TimerRunning) = Some TimerRunning"
    by (simp add: timer_resume_def)
  have m: "answer_meaning ''what'' = None" "answer_meaning ''Yes'' = Some ACCEPTED"
    "answer_meaning ''NO'' = Some DENIED" "answer_meaning ''show'' = None"
    "answer_meaning ''Show'' = None" "answer_meaning ''l'' = Some LATER"
    by code_simp+
  have r: "reprompt False ''what'' = Text ''Please answer yes/no/Later: ''"
    "reprompt False ''show'' = Text ''Please answer yes/no/Later: ''"
    by (simp_all add: reprompt_def)
  have r': "reprompt True ''Show'' =
      Text (''Show metrics example here'' @ [CHR 0x0A, CHR 0x0A] @
            ''Send usage data (yes/no/Later/show)? '')"
    by code_simp
  from on_success_metrics_pending [OF p, of "example_launch False [''yes'']"] t
  have a: "on_success example_reply (example_launch False [''yes'']) =
     (RequestLaunch, (example_launch False [''yes''])\<lparr>spinner := None\<rparr>)"
    by (simp add: example_launch_def)
  from on_success_metrics_pending [OF p, of "example_launch True [''what'', ''Yes'', ''x'']"]
    h t m r
  have b: "on_success example_reply (example_launch True [''what'', ''Yes'', ''x'']) =
     (RequestLaunch,
      (example_launch True [''what'', ''Yes'', ''x''])
        \<lparr>spinner := None,
         request := example_request\<lparr>opt_in_reply := Some ACCEPTED\<rparr>,
         cout := [OptInQuestion False, Text ''Please answer yes/no/Later: '',
                  Text (''Thank you!'' @ [CHR 0x0A])],
         term_cin := [''x'']\<rparr>)"
    by (simp add: example_launch_def final_status_def)
  from on_success_metrics_pending [OF p, of "example_launch True [''NO'', ''yes'']"]
    h t m r
  have c: "on_success example_reply (example_launch True [''NO'', ''yes'']) =
     (RequestLaunch,
      (example_launch True [''NO'', ''yes''])
        \<lparr>spinner := None,
         request := example_request\<lparr>opt_in_reply := Some DENIED\<rparr>,
         cout := [OptInQuestion False],
         term_cin := [''yes'']\<rparr>)"
    by (simp add: example_launch_def final_status_def)
  from on_success_metrics_pending [OF p, of "example_launch True [''show'']"]
    h t m r
  have d: "on_success example_reply (example_launch True [''show'']) =
     (RequestLaunch,
      (example_launch True [''show''])
        \<lparr>spinner := None,
         request := example_request\<lparr>opt_in_reply := Some LATER\<rparr>,
         cout := [OptInQuestion False, Text ''Please answer yes/no/Later: ''],
         term_cin := []\<rparr>)"
    by (simp add: example_launch_def final_status_def)
  from on_success_metrics_pending [OF p', of "example_launch True [''Show'', ''l'']"]
    t m r'
  have e: "on_success (example_reply\<lparr>has_host_info := True\<rparr>)
      (example_launch True [''Show'', ''l'']) =
     (RequestLaunch,
      (example_launch True [''Show'', ''l''])
        \<lparr>spinner := None,
         request := example_request\<lparr>opt_in_reply := Some LATER\<rparr>,
         cout := [OptInQuestion True,
                  Text (''Show metrics example here'' @ [CHR 0x0A, CHR 0x0A] @
                        ''Send usage data (yes/no/Later/show)? '')],
         term_cin := []\<rparr>)"
    by (simp add: example_launch_def final_status_def)
  from a b c d e show ?thesis by blast
qed

section \<open>Properties of the failure callback\<close>

lemma error_details_loop_snoc:
  "error_details_loop req d (codes @ [code]) =
     error_details_loop req (error_details_loop req d codes) [code]"
  by (induction codes arbitrary: d) simp_all

lemma sublist_middle: "sublist xs (ps @ xs @ ss)"
  unfolding sublist_def by blast

lemma on_failure_details:
  "on_failure handler status c =
     (case handler ''launch'' status (error_details_loop (request c) [] (error_codes status)) of
        (written, rc) \<Rightarrow> (rc, c\<lparr>spinner := None, cerr := cerr c @ written\<rparr>))"
  by (simp add: on_failure_def split: prod.splits)

text \<open>
  The claim C3 says that the message for each of the four codes includes the value
  that triggered the error. For \<open>INVALID_NETWORK\<close> the details are a fixed text (the
  source notes that showing the option needs a change of the protocol): a request
  for the network \<open>mynet\<close> gets details that do not mention it.
\<close>

theorem error_details_network_counterexample:
  "network_options example_request = [\<lparr>id_net = ''mynet'', mode = AUTO, mac_address = []\<rparr>]
   \<and> error_details_loop example_request [] [INVALID_NETWORK] =
       ''Invalid network options supplied''
   \<and> \<not> sublist ''mynet'' (error_details_loop example_request [] [INVALID_NETWORK])"
proof -
  have "\<not> sublist ''mynet'' ''Invalid network options supplied''" by code_simp
  then show ?thesis by (simp add: example_request_def)
qed

text \<open>
  C3, as the callback has it. For a launch failure that carries one structured
  code, the client stops the spinner and hands the failure handler a detail text:
  for invalid disk size, invalid memory size and invalid hostname the text includes
  the disk size, the memory size or the instance name of the request; for invalid
  network it is the fixed text "Invalid network options supplied", which names no
  option.
\<close>

theorem on_failure_single_code:
  assumes "error_codes status = [code]"
  shows "on_failure handler status c =
           (case handler ''launch'' status (error_details_loop (request c) [] [code]) of
              (written, rc) \<Rightarrow> (rc, c\<lparr>spinner := None, cerr := cerr c @ written\<rparr>))
       \<and> error_details_loop (request c) [] [code] =
           (case code of
              INVALID_DISK_SIZE \<Rightarrow>
                ''Invalid disk size value supplied: '' @ disk_space (request c) @ ''.''
            | INVALID_MEM_SIZE \<Rightarrow>
                ''Invalid memory size value supplied: '' @ mem_size (request c) @ ''.''
            | INVALID_HOSTNAME \<Rightarrow>
                ''Invalid instance name supplied: '' @ instance_name (request c)
            | INVALID_NETWORK \<Rightarrow> ''Invalid network options supplied''
            | OTHER_ERROR_CODE \<Rightarrow> [])
       \<and> (code = INVALID_DISK_SIZE \<longrightarrow>
            sublist (disk_space (request c)) (error_details_loop (request c) [] [code]))
       \<and> (code = INVALID_MEM_SIZE \<longrightarrow>
            sublist (mem_size (request c)) (error_details_loop (request c) [] [code]))
       \<and> (code = INVALID_HOSTNAME \<longrightarrow>
            sublist (instance_name (request c)) (error_details_loop (request c) [] [code]))"
proof -
  have s1: "sublist (disk_space (request c))
      (''Invalid disk size value supplied: '' @ disk_space (request c) @ ''.'')"
    by (rule sublist_middle)
  have s2: "sublist (mem_size (request c))
      (''Invalid memory size value supplied: '' @ mem_size (request c) @ ''.'')"
    by (rule sublist_middle)
  have s3: "sublist (instance_name (request c))
      (''Invalid instance name supplied: '' @ instance_name (request c) @ [])"
    by (rule sublist_middle)
  have d: "error_details_loop (request c) [] [code] =
           (case code of
              INVALID_DISK_SIZE \<Rightarrow>
                ''Invalid disk size value supplied: '' @ disk_space (request c) @ ''.''
            | INVALID_MEM_SIZE \<Rightarrow>
                ''Invalid memory size value supplied: '' @ mem_size (request c) @ ''.''
            | INVALID_HOSTNAME \<Rightarrow>
                ''Invalid instance name supplied: '' @ instance_name (request c)
            | INVALID_NETWORK \<Rightarrow> ''Invalid network options supplied''
            | OTHER_ERROR_CODE \<Rightarrow> [])"
    by (cases code) simp_all
  from assms have f: "on_failure handler status c =
           (case handler ''launch'' status (error_details_loop (request c) [] [code]) of
              (written, rc) \<Rightarrow> (rc, c\<lparr>spinner := None, cerr := cerr c @ written\<rparr>))"
    by (simp add: on_failure_details)
  from s1 s2 s3 have s: "(code = INVALID_DISK_SIZE \<longrightarrow>
            sublist (disk_space (request c)) (error_details_loop (request c) [] [code]))
       \<and> (code = INVALID_MEM_SIZE \<longrightarrow>
            sublist (mem_size (request c)) (error_details_loop (request c) [] [code]))
       \<and> (code = INVALID_HOSTNAME \<longrightarrow>
            sublist (instance_name (request c)) (error_details_loop (request c) [] [code]))"
    by simp
  from f d s show ?thesis by blast
qed

theorem on_failure_single_code_witness:
  "on_failure example_handler \<lparr>error_message = ''bad'', error_codes = [INVALID_DISK_SIZE]\<rparr>
     (example_launch False []) =
     (CommandFail,
      (example_launch False [])
        \<lparr>spinner := None,
         cerr := [''launch failed: bad'', ''Invalid disk size value supplied: 5G.'']\<rparr>)
   \<and> sublist ''5G'' ''Invalid disk size value supplied: 5G.''"
proof -
  let ?status = "\<lparr>error_message = ''bad'', error_codes = [INVALID_DISK_SIZE]\<rparr>"
  have h: "error_codes ?status = [INVALID_DISK_SIZE]" by simp
  from on_failure_single_code [OF h, of example_handler "example_launch False []"]
  show ?thesis
    by (simp add: example_handler_def example_launch_def example_request_def)
qed

text \<open>With several codes in the payload, the details are those of the last one.\<close>

lemma error_details_loop_last_code:
  assumes "code \<noteq> OTHER_ERROR_CODE"
  shows "error_details_loop req d (codes @ [code]) = error_details_loop req [] [code]"
  using assms by (cases code) (simp_all add: error_details_loop_snoc)

section \<open>Properties of the progress callback\<close>

text \<open>What the table yields for each kind; a kind it does not hold gets no text.\<close>

lemma map_subscript_progress_messages:
  "map_subscript progress_messages t =
     (case t of
        IMAGE \<Rightarrow> ''Retrieving image: ''
      | KERNEL \<Rightarrow> ''Retrieving kernel image: ''
      | INITRD \<Rightarrow> ''Retrieving initrd image: ''
      | EXTRACT \<Rightarrow> ''Extracting image: ''
      | VERIFY \<Rightarrow> ''Verifying image: ''
      | WAITING \<Rightarrow> ''Preparing image: ''
      | OTHER_PROGRESS_TYPE \<Rightarrow> [])"
  by (cases t) (simp_all add: map_subscript_def progress_messages_def)



text \<open>
  A kind outside the six gets the empty message: with a percentage only the
  percentage is written.
\<close>

lemma streaming_callback_other_kind:
  "cout (streaming_callback (example_progress OTHER_PROGRESS_TYPE ''42'') (example_launch True []))
     = [Text [CHR 0x0D], Text ''42%'']"
  by (simp add: streaming_callback_def map_subscript_progress_messages example_progress_def
      example_launch_def)

section \<open>Properties of backend selection\<close>

text \<open>
  C8. For every configured driver that is not a supported backend, \<open>vm_backend\<close>
  fails with the unsupported-backend condition for that driver; for every
  supported driver it produces the factory bound to that backend, for the given
  directory.
\<close>

theorem vm_backend_supported_or_fails:
  "(\<not> is_backend_supported (driver_setting platform) \<longrightarrow>
       vm_backend platform data_dir = Inl (UnsupportedBackend (driver_setting platform)))
   \<and> (is_backend_supported (driver_setting platform) \<longrightarrow>
       (\<exists>factory. vm_backend platform data_dir = Inr factory
          \<and> backend_of factory = driver_setting platform
          \<and> data_dir_of factory = data_dir))"
  by (auto simp: vm_backend_def is_backend_supported_def)

text \<open>The drivers of the tests: three that are refused and three that are served.\<close>

theorem vm_backend_supported_or_fails_witness:
  "vm_backend \<lparr>driver_setting = ''hyperkit'', driver_env = None\<rparr> ''/tmp'' =
     Inl (UnsupportedBackend ''hyperkit'')
   \<and> vm_backend \<lparr>driver_setting = ''hyper-v'', driver_env = None\<rparr> ''/tmp'' =
     Inl (UnsupportedBackend ''hyper-v'')
   \<and> vm_backend \<lparr>driver_setting = ''other'', driver_env = None\<rparr> ''/tmp'' =
     Inl (UnsupportedBackend ''other'')
   \<and> vm_backend \<lparr>driver_setting = ''qemu'', driver_env = None\<rparr> ''/tmp'' =
     Inr (QemuVirtualMachineFactory ''/tmp'')
   \<and> vm_backend \<lparr>driver_setting = ''libvirt'', driver_env = None\<rparr> ''/tmp'' =
     Inr (LibVirtVirtualMachineFactory ''/tmp'')
   \<and> vm_backend \<lparr>driver_setting = ''lxd'', driver_env = None\<rparr> ''/tmp'' =
     Inr (LXDVirtualMachineFactory ''/tmp'')"
proof -
  have u: "\<not> is_backend_supported ''hyperkit''" "\<not> is_backend_supported ''hyper-v''"
    "\<not> is_backend_supported ''other''"
    by (simp_all add: is_backend_supported_def)
  have s: "is_backend_supported ''qemu''" "is_backend_supported ''libvirt''"
    "is_backend_supported ''lxd''"
    by (simp_all add: is_backend_supported_def)
  have f: "backend_of factory = ''qemu'' \<and> data_dir_of factory = d
       \<longleftrightarrow> factory = QemuVirtualMachineFactory d"
    "backend_of factory = ''libvirt'' \<and> data_dir_of factory = d
       \<longleftrightarrow> factory = LibVirtVirtualMachineFactory d"
    "backend_of factory = ''lxd'' \<and> data_dir_of factory = d
       \<longleftrightarrow> factory = LXDVirtualMachineFactory d" for factory d
    by (cases factory; auto)+
  show ?thesis
    using vm_backend_supported_or_fails
        [of "\<lparr>driver_setting = ''hyperkit'', driver_env = None\<rparr>" "''/tmp''"]
      vm_backend_supported_or_fails
        [of "\<lparr>driver_setting = ''hyper-v'', driver_env = None\<rparr>" "''/tmp''"]
      vm_backend_supported_or_fails
        [of "\<lparr>driver_setting = ''other'', driver_env = None\<rparr>" "''/tmp''"]
      vm_backend_supported_or_fails
        [of "\<lparr>driver_setting = ''qemu'', driver_env = None\<rparr>" "''/tmp''"]
      vm_backend_supported_or_fails
        [of "\<lparr>driver_setting = ''libvirt'', driver_env = None\<rparr>" "''/tmp''"]
      vm_backend_supported_or_fails
        [of "\<lparr>driver_setting = ''lxd'', driver_env = None\<rparr>" "''/tmp''"]
      u s f
    by auto
qed

text \<open>
  C10. Two runs with the same configured driver get the same result from
  \<open>vm_backend\<close>, whatever the driver environment variable holds in each: the
  setting alone determines the backend.
\<close>

theorem vm_backend_ignores_driver_env:
  "driver_setting p1 = driver_setting p2 \<Longrightarrow> vm_backend p1 data_dir = vm_backend p2 data_dir"
  by (simp add: vm_backend_def)

text \<open>
  The two tests: \<open>QEMU\<close> in the variable with the setting \<open>libvirt\<close>, and \<open>LIBVIRT\<close>
  in the variable with the setting \<open>qemu\<close>.
\<close>

theorem vm_backend_ignores_driver_env_witness:
  "vm_backend \<lparr>driver_setting = ''libvirt'', driver_env = Some ''QEMU''\<rparr> ''/tmp'' =
     vm_backend \<lparr>driver_setting = ''libvirt'', driver_env = None\<rparr> ''/tmp''
   \<and> vm_backend \<lparr>driver_setting = ''libvirt'', driver_env = Some ''QEMU''\<rparr> ''/tmp'' =
     Inr (LibVirtVirtualMachineFactory ''/tmp'')
   \<and> vm_backend \<lparr>driver_setting = ''qemu'', driver_env = Some ''LIBVIRT''\<rparr> ''/tmp'' =
     vm_backend \<lparr>driver_setting = ''qemu'', driver_env = None\<rparr> ''/tmp''
   \<and> vm_backend \<lparr>driver_setting = ''qemu'', driver_env = Some ''LIBVIRT''\<rparr> ''/tmp'' =
     Inr (QemuVirtualMachineFactory ''/tmp'')"
proof -
  have a: "vm_backend \<lparr>driver_setting = ''libvirt'', driver_env = Some ''QEMU''\<rparr> ''/tmp'' =
     vm_backend \<lparr>driver_setting = ''libvirt'', driver_env = None\<rparr> ''/tmp''"
    by (rule vm_backend_ignores_driver_env) simp
  have b: "vm_backend \<lparr>driver_setting = ''qemu'', driver_env = Some ''LIBVIRT''\<rparr> ''/tmp'' =
     vm_backend \<lparr>driver_setting = ''qemu'', driver_env = None\<rparr> ''/tmp''"
    by (rule vm_backend_ignores_driver_env) simp
  have c: "vm_backend \<lparr>driver_setting = ''libvirt'', driver_env = None\<rparr> ''/tmp'' =
      Inr (LibVirtVirtualMachineFactory ''/tmp'')"
    "vm_backend \<lparr>driver_setting = ''qemu'', driver_env = None\<rparr> ''/tmp'' =
      Inr (QemuVirtualMachineFactory ''/tmp'')"
    by (simp_all add: vm_backend_def)
  from a b c show ?thesis by simp
qed

section \<open>Properties of the virtual machine\<close>

text \<open>
  C9. On a machine whose state is \<open>stopped\<close>, \<open>stop\<close> succeeds, whatever \<open>force\<close> is
  and whatever the backend would answer, and yields the machine as it was: no
  request goes to the backend and the state is still \<open>stopped\<close>.
\<close>

theorem stop_stopped_idempotent:
  assumes "vm_state vm = stopped"
  shows "stop backend_ok force vm = Inr vm"
  using assms by (simp add: stop_def)

theorem stop_stopped_idempotent_witness:
  "stop (\<lambda>r. False) False
     \<lparr>vm_name = ''test1'', vm_state = stopped, suspend_status = False, backend_requests = []\<rparr>
   = Inr \<lparr>vm_name = ''test1'', vm_state = stopped, suspend_status = False,
          backend_requests = []\<rparr>"
  by (rule stop_stopped_idempotent) simp

text \<open>From any other state a successful \<open>stop\<close> ends in \<open>stopped\<close>.\<close>

lemma stop_reaches_stopped:
  "stop backend_ok force vm = Inr vm' \<Longrightarrow> vm_state vm' = stopped"
  by (auto simp: stop_def Let_def split: if_splits)

section \<open>Properties of cancellation\<close>

lemma download_round_abort_twice:
  "download_round True (download_round True x) = download_round True x"
  by (cases x) simp_all

lemma downloader_step_keeps_abort:
  "abort_download d \<Longrightarrow> abort_download (downloader_step d e)"
  by (cases e) (simp_all add: abort_all_downloads_def)

lemma downloader_step_length:
  "length (downloads d) \<le> length (downloads (downloader_step d e))"
  by (cases e) (simp_all add: abort_all_downloads_def)

lemma downloader_step_after_abort:
  assumes "abort_download d" and "i < length (downloads d)"
  shows "downloads (downloader_step d e) ! i =
           (if e = Round i then download_round True (downloads d ! i) else downloads d ! i)"
  using assms by (cases e) (auto simp: abort_all_downloads_def nth_append)

text \<open>
  Once the flag is set it stays set, and a download changes only by a round of its
  own, which reads the flag.
\<close>

lemma downloader_run_after_abort:
  assumes "abort_download d" and "i < length (downloads d)"
  shows "abort_download (downloader_run d events)
       \<and> downloads (downloader_run d events) ! i =
           (if Round i \<in> set events then download_round True (downloads d ! i)
            else downloads d ! i)"
  using assms unfolding downloader_run_def
proof (induction events arbitrary: d)
  case Nil
  then show ?case by simp
next
  case (Cons e events)
  let ?d = "downloader_step d e"
  from Cons.prems have flag: "abort_download ?d"
    by (simp add: downloader_step_keeps_abort)
  from Cons.prems downloader_step_length [of d e] have len: "i < length (downloads ?d)"
    by simp
  from Cons.prems have here: "downloads ?d ! i =
      (if e = Round i then download_round True (downloads d ! i) else downloads d ! i)"
    by (rule downloader_step_after_abort)
  from Cons.IH [OF flag len] here show ?case
    by (auto simp: download_round_abort_twice)
qed

text \<open>
  C7. \<open>abort_all_downloads\<close> sets the one flag of the downloader. From then on,
  whatever the downloads of the instance and their starts and rounds do, the flag
  stays set and every download that was in flight is either still where it was (it
  has made no round since) or cancelled (it has made one): none of them completes.
\<close>

theorem abort_all_downloads_cancels_in_flight:
  assumes "i < length (downloads d)" and "downloads d ! i = InFlight written chunk chunks"
  shows "abort_download (abort_all_downloads d)
       \<and> abort_download (downloader_run (abort_all_downloads d) events)
       \<and> downloads (downloader_run (abort_all_downloads d) events) ! i =
           (if Round i \<in> set events then Cancelled else InFlight written chunk chunks)
       \<and> (\<forall>output. downloads (downloader_run (abort_all_downloads d) events) ! i
                     \<noteq> Completed output)"
proof -
  let ?d = "abort_all_downloads d"
  have flag: "abort_download ?d" by (simp add: abort_all_downloads_def)
  from assms have len: "i < length (downloads ?d)"
    and at: "downloads ?d ! i = InFlight written chunk chunks"
    by (simp_all add: abort_all_downloads_def)
  from downloader_run_after_abort [OF flag len, of events] at flag show ?thesis
    by simp
qed

theorem abort_all_downloads_cancels_in_flight_witness:
  "downloads (downloader_run (abort_all_downloads example_downloader)
      [Round 0, Start [''z''], Round 2]) ! 0 = Cancelled
   \<and> downloads (downloader_run (abort_all_downloads example_downloader)
      [Round 0, Start [''z''], Round 2]) ! 1 = InFlight [] ''x'' [''y'']"
proof -
  have l0: "0 < length (downloads example_downloader)"
    and l1: "1 < length (downloads example_downloader)"
    by (simp_all add: example_downloader_def)
  have a0: "downloads example_downloader ! 0 = InFlight ''ab'' ''cd'' []"
    and a1: "downloads example_downloader ! 1 = InFlight [] ''x'' [''y'']"
    by (simp_all add: example_downloader_def)
  from abort_all_downloads_cancels_in_flight [OF l0 a0, of "[Round 0, Start [''z''], Round 2]"]
    abort_all_downloads_cancels_in_flight [OF l1 a1, of "[Round 0, Start [''z''], Round 2]"]
  show ?thesis by simp
qed

text \<open>Without the call the same download completes: the flag is what stops it.\<close>

lemma download_completes_without_abort:
  "downloads (downloader_run example_downloader [Round 0]) ! 0 = Completed ''abcd''"
  by (simp add: downloader_run_def example_downloader_def)

end
